theory Spec2Isabelle
  imports Main "HOL-Library.Sublist" "HOL-Library.List_Lexorder" "HOL-Library.Char_ord"
    "HOL-Library.AList"
begin

section \<open>Python strings and lists\<close>

text \<open>
  A Python \<open>str\<close> is modelled as a \<open>string\<close>: one \<open>char\<close> per code point, so the
  development covers texts whose code points are below 256. Indices and the results of
  \<open>str.find\<close> are Python integers (\<open>int\<close>): \<open>-1\<close> is "not found", and a negative
  index counts from the end.
\<close>

datatype py_exn = IndexError | FileNotFoundError | KeyboardInterrupt | OtherException

text \<open>\<open>s.find(sub)\<close>: the lowest index where \<open>sub\<close> occurs in \<open>s\<close>, or \<open>-1\<close>.\<close>

fun py_find_aux :: "string \<Rightarrow> string \<Rightarrow> nat \<Rightarrow> int" where
  "py_find_aux sub [] i = (if sub = [] then int i else - 1)"
| "py_find_aux sub (c # cs) i =
     (if prefix sub (c # cs) then int i else py_find_aux sub cs (Suc i))"

definition py_find :: "string \<Rightarrow> string \<Rightarrow> int" where
  "py_find sub s = py_find_aux sub s 0"

text \<open>Slice bounds are clamped to \<open>0 .. len(s)\<close>, negative ones counted from the end.\<close>

definition py_clamp :: "nat \<Rightarrow> int \<Rightarrow> nat" where
  "py_clamp n i = (if i < 0 then nat (max 0 (int n + i)) else min (nat i) n)"

text \<open>\<open>s.find(sub, start)\<close>.\<close>

definition py_find_from :: "string \<Rightarrow> string \<Rightarrow> int \<Rightarrow> int" where
  "py_find_from sub s start =
     (let k = py_clamp (length s) start
      in if int (length s) < start then - 1 else py_find_aux sub (drop k s) k)"

text \<open>\<open>sub in s\<close> for strings.\<close>

definition py_in :: "string \<Rightarrow> string \<Rightarrow> bool" where
  "py_in sub s = (0 \<le> py_find sub s)"

text \<open>\<open>s[i:j]\<close>.\<close>

definition py_slice :: "'a list \<Rightarrow> int \<Rightarrow> int \<Rightarrow> 'a list" where
  "py_slice s i j =
     (let a = py_clamp (length s) i; b = py_clamp (length s) j
      in take (b - a) (drop a s))"

text \<open>\<open>s[i]\<close>, an \<open>IndexError\<close> when \<open>i\<close> is outside \<open>-len(s) .. len(s)-1\<close>.\<close>

definition py_get :: "'a list \<Rightarrow> int \<Rightarrow> py_exn + 'a" where
  "py_get xs i =
     (if 0 \<le> i \<and> i < int (length xs) then Inr (xs ! nat i)
      else if i < 0 \<and> - int (length xs) \<le> i then Inr (xs ! nat (int (length xs) + i))
      else Inl IndexError)"

text \<open>
  \<open>str.isspace\<close> on the code points below 256: tab to carriage return, the four
  separators \<open>0x1C .. 0x1F\<close>, space, \<open>0x85\<close> and \<open>0xA0\<close>.
\<close>

definition py_isspace :: "char \<Rightarrow> bool" where
  "py_isspace c =
     (let n = (of_char c :: nat)
      in (9 \<le> n \<and> n \<le> 13) \<or> (28 \<le> n \<and> n \<le> 32) \<or> n = 133 \<or> n = 160)"

text \<open>\<open>s.strip(chars)\<close> and \<open>s.strip()\<close>.\<close>

definition py_strip_chars :: "string \<Rightarrow> string \<Rightarrow> string" where
  "py_strip_chars chars s =
     rev (dropWhile (\<lambda>c. c \<in> set chars) (rev (dropWhile (\<lambda>c. c \<in> set chars) s)))"

definition py_strip :: "string \<Rightarrow> string" where
  "py_strip s = rev (dropWhile py_isspace (rev (dropWhile py_isspace s)))"

text \<open>\<open>s.split(sep)\<close> for a separator of one character: never the empty list.\<close>

fun py_split :: "char \<Rightarrow> string \<Rightarrow> string list" where
  "py_split sep [] = [[]]"
| "py_split sep (c # cs) =
     (if c = sep then [] # py_split sep cs
      else (case py_split sep cs of
              [] \<Rightarrow> [[c]]
            | w # ws \<Rightarrow> (c # w) # ws))"

text \<open>\<open>s.split()\<close>: the maximal runs of non-whitespace characters.\<close>

fun py_split_ws_aux :: "string \<Rightarrow> string \<Rightarrow> string list" where
  "py_split_ws_aux w [] = (if w = [] then [] else [rev w])"
| "py_split_ws_aux w (c # cs) =
     (if py_isspace c
      then (if w = [] then py_split_ws_aux [] cs else rev w # py_split_ws_aux [] cs)
      else py_split_ws_aux (c # w) cs)"

definition py_split_ws :: "string \<Rightarrow> string list" where
  "py_split_ws s = py_split_ws_aux [] s"

section \<open>Extraction of citations from the \<open>.aux\<close> file\<close>

definition citation_marker :: string where
  "citation_marker = CHR 0x5C # ''citation{''"

definition abx_marker :: string where
  "abx_marker = CHR 0x5C # ''abx@aux@cite{''"

text \<open>
  \<open>find_citation\<close>: \<open>x\<close> is only tested for its sign; \<open>y\<close> is the first opening brace
  of the whole line and \<open>z\<close> the first closing brace from there (\<open>-1\<close> when there is
  none, which the slice then reads as "up to the last character").
\<close>

definition find_citation :: "string \<Rightarrow> string" where
  "find_citation l =
     (if 0 \<le> py_find citation_marker l then
        (let y = py_find ''{'' l; z = py_find_from ''}'' l y in py_slice l (y + 1) z)
      else if 0 \<le> py_find abx_marker l then
        (let y = py_find ''{'' l; z = py_find_from ''}'' l y in py_slice l (y + 1) z)
      else '''')"

section \<open>Console output, exceptions and exit\<close>

text \<open>
  \<open>print\<close> appends to the console: \<open>Print s\<close> is one line of text, and
  \<open>PrintList s xs\<close> is \<open>print(s, xs)\<close> for a list of strings \<open>xs\<close>, whose rendering is
  left to Python. A run ends early by \<open>sys.exit\<close> (\<open>SystemExit\<close> with the status) or by
  an exception that nothing catches. \<open>Unmodelled\<close> marks the one place where this
  development does not follow Python: \<open>re.sub\<close> with a backslash in the replacement.
\<close>

datatype event = Print string | PrintList string "string list"

datatype stop = SystemExit nat | Uncaught py_exn | Unmodelled

type_synonym 'a run = "event list \<times> (stop + 'a)"

definition bind_run :: "'a run \<Rightarrow> ('a \<Rightarrow> 'b run) \<Rightarrow> 'b run" where
  "bind_run m f =
     (case m of
        (out, Inl e) \<Rightarrow> (out, Inl e)
      | (out, Inr v) \<Rightarrow> (case f v of (out', r) \<Rightarrow> (out @ out', r)))"

text \<open>\<open>str(n)\<close> for a natural number, as the f-strings print it.\<close>

fun py_str_nat :: "nat \<Rightarrow> string" where
  "py_str_nat n =
     (if n < 10 then [char_of (48 + n)]
      else py_str_nat (n div 10) @ [char_of (48 + n mod 10)])"

text \<open>
  The file system: a path is a regular file exactly when it has contents, and the
  contents are the lines that iterating over the opened file yields (each with its line
  end). \<open>open\<close> of a path that is no file raises \<open>FileNotFoundError\<close>.
\<close>

type_synonym files = "string \<rightharpoonup> string list"

definition isfile :: "files \<Rightarrow> string \<Rightarrow> bool" where
  "isfile fs p = (fs p \<noteq> None)"

section \<open>\<open>load_references\<close>\<close>

text \<open>
  The \<open>\bibstyle\<close> block: with exactly one such line, \<open>x[1]\<close> of its split at the
  opening brace (an \<open>IndexError\<close> when the line has no brace), cut at the closing brace;
  otherwise the global \<open>gBibStyle\<close> stays as it was.
\<close>

definition bibstyle_of :: "string \<Rightarrow> string list \<Rightarrow> py_exn + string" where
  "bibstyle_of gBibStyle bibstyleline =
     (if length bibstyleline = 1 then
        (case py_get (py_split (CHR ''{'') (bibstyleline ! 0)) 1 of
           Inl e \<Rightarrow> Inl e
         | Inr x1 \<Rightarrow> Inr (hd (py_split (CHR ''}'') x1)))
      else Inr gBibStyle)"

text \<open>The last five statements of \<open>load_references\<close>, on the stripped lines.\<close>

definition citation_keys :: "string list \<Rightarrow> string list" where
  "citation_keys lines0 =
     (let lines1 = map find_citation lines0;
          lines2 = map (py_strip_chars '' '') (filter (\<lambda>c. c \<noteq> []) lines1);
          lines3 = map (py_split (CHR '','')) lines2;
          lines4 = concat lines3
      in sorted_list_of_set (set lines4))"

text \<open>
  \<open>load_references\<close> returns the new \<open>gBibStyle\<close> and the keys. The guard looks at
  \<open>bibname\<close> and at \<open>bibname + ".aux"\<close>; the file that is opened is always \<open>bibname\<close>.
\<close>

definition load_references :: "files \<Rightarrow> string \<Rightarrow> string \<Rightarrow> (string \<times> string list) run" where
  "load_references fs gBibStyle bibname =
     (if \<not> isfile fs bibname \<and> \<not> isfile fs (bibname @ ''.aux'') then
        ([Print (''FATAL -- File '' @ bibname @ '' does not exist'')], Inl (SystemExit 1))
      else
        (case fs bibname of
           None \<Rightarrow> ([Print (''bibcloud: parsing  '' @ bibname)], Inl (Uncaught FileNotFoundError))
         | Some raw \<Rightarrow>
             (let lines0 = map py_strip raw;
                  bibstyleline = filter (\<lambda>x. 0 \<le> py_find (CHR 0x5C # ''bibstyle'') x) lines0;
                  out = [Print (''bibcloud: parsing  '' @ bibname),
                         PrintList ''BIBSTYLE is '' bibstyleline]
              in (case bibstyle_of gBibStyle bibstyleline of
                    Inl e \<Rightarrow> (out, Inl (Uncaught e))
                  | Inr style \<Rightarrow>
                      (out @ (if length bibstyleline = 1
                              then [Print (''BIBSTYLE (stipped) '' @ style)] else []),
                       Inr (style, citation_keys lines0))))))"

section \<open>\<open>strip_comment\<close> and \<open>validate_bib\<close>\<close>

definition strip_comment :: "string \<Rightarrow> string" where
  "strip_comment l = (let pos = py_find ''%'' l in if 0 \<le> pos then py_slice l 0 pos else l)"

text \<open>\<open>and\<close> evaluates \<open>tmp[-3]\<close> only when \<open>tmp[0] == "@"\<close> holds.\<close>

definition validate_bib :: "string \<Rightarrow> py_exn + bool" where
  "validate_bib tmp =
     (case py_get tmp 0 of
        Inl e \<Rightarrow> Inl e
      | Inr c0 \<Rightarrow>
          if c0 = CHR ''@'' then
            (case py_get tmp (- 3) of
               Inl e \<Rightarrow> Inl e
             | Inr c3 \<Rightarrow> Inr (c3 = CHR ''}''))
          else Inr False)"

section \<open>\<open>download_dblp\<close>\<close>

definition urls_DBLP :: string where
  "urls_DBLP = ''https://dblp.uni-trier.de/rec''"

definition urls_DOI :: string where
  "urls_DOI = ''https://dblp.org/doi''"

text \<open>
  The pattern \<open>{.+,\<close> tried at the head of \<open>s\<close>: an opening brace, then the longest
  run of characters other than the line feed that still leaves a comma to end on. So the
  match ends at the last comma of the line that is at least two places after the brace.
  \<open>last_index x xs\<close> is the highest index of \<open>x\<close> in \<open>xs\<close>; \<open>key_match_len\<close> is the
  length of the match.
\<close>

fun last_index :: "'a \<Rightarrow> 'a list \<Rightarrow> nat option" where
  "last_index x [] = None"
| "last_index x (y # ys) =
     (case last_index x ys of
        Some j \<Rightarrow> Some (Suc j)
      | None \<Rightarrow> if y = x then Some 0 else None)"

definition key_match_len :: "string \<Rightarrow> nat option" where
  "key_match_len s =
     (case s of
        [] \<Rightarrow> None
      | c # rest \<Rightarrow>
          if c = CHR ''{'' then
            (case last_index (CHR '','') (drop 1 (takeWhile (\<lambda>d. d \<noteq> CHR 0x0A) rest)) of
               None \<Rightarrow> None
             | Some j \<Rightarrow> Some (j + 3))
          else None)"

text \<open>
  \<open>re.sub('{.+,', repl, s, count=1)\<close> for a replacement without backslash, which
  Python inserts as it is: the leftmost match is replaced, a text without match is
  returned unchanged.
\<close>

fun re_sub_first :: "string \<Rightarrow> string \<Rightarrow> string" where
  "re_sub_first repl [] = []"
| "re_sub_first repl (c # cs) =
     (case key_match_len (c # cs) of
        Some n \<Rightarrow> repl @ drop n (c # cs)
      | None \<Rightarrow> c # re_sub_first repl cs)"

definition re_sub_key :: "string \<Rightarrow> string \<Rightarrow> stop + string" where
  "re_sub_key repl s =
     (if CHR 0x5C \<in> set repl then Inl Unmodelled else Inr (re_sub_first repl s))"

text \<open>
  Lines 162 to 172 of \<open>download_dblp\<close>: the key and the flag \<open>dblp\<close>. The tests are
  \<open>"DBLP:" in label\<close> and \<open>"DOI:" in label\<close>; the slices are \<open>label[5:]\<close> and
  \<open>label[4:]\<close>.
\<close>

definition fetch_key :: "string \<Rightarrow> string \<times> bool" where
  "fetch_key label =
     (if py_in ''DBLP:'' label then (drop 5 label, True)
      else if py_in ''DOI:'' label then (drop 4 label, False)
      else (label, False))"

text \<open>Line 177, the address of the request, and line 180, the error text.\<close>

definition fetch_url :: "string \<Rightarrow> string" where
  "fetch_url label =
     (if snd (fetch_key label) then urls_DBLP else urls_DOI) @ ''/'' @ fst (fetch_key label)
       @ ''.bib''"

definition fetch_err :: "string \<Rightarrow> string" where
  "fetch_err label = ''ERROR key: '' @ fst (fetch_key label) @ '', url: '' @ fetch_url label"

text \<open>
  \<open>download_dblp\<close>. \<open>REVALIAS\<close> is the global dictionary, \<open>requests_get url\<close> is what
  \<open>requests.get(url).text\<close> yields: the body, or the exception it raises. The result is
  the pair \<open>(ret, err)\<close>. An exception inside \<open>try\<close> other than the interrupt is
  printed and leaves \<open>ret = None\<close>; \<open>err\<close> is already set when \<open>validate_bib\<close> raises.
\<close>

definition download_dblp ::
  "(string \<times> string) list \<Rightarrow> (string \<Rightarrow> py_exn + string) \<Rightarrow> string
     \<Rightarrow> (string option \<times> string) run" where
  "download_dblp REVALIAS requests_get label =
     (let key = fst (fetch_key label);
          failed = Print (''ERROR cannot fetch '' @ key)
      in (case requests_get (fetch_url label) of
            Inl KeyboardInterrupt \<Rightarrow> ([], Inl (SystemExit 0))
          | Inl _ \<Rightarrow> ([failed], Inr (None, []))
          | Inr bib \<Rightarrow>
              (case validate_bib bib of
                 Inl _ \<Rightarrow> ([failed], Inr (None, fetch_err label))
               | Inr False \<Rightarrow> ([], Inr (None, fetch_err label))
               | Inr True \<Rightarrow>
                   if bib \<noteq> [] then
                     (let rep = (case map_of REVALIAS label of Some a \<Rightarrow> a | None \<Rightarrow> label);
                          replace = Print (''Replace '' @ label @ '' with '' @ rep)
                      in (case re_sub_key (''{'' @ rep @ '','') bib of
                            Inl e \<Rightarrow> ([replace], Inl e)
                          | Inr ret \<Rightarrow> ([replace], Inr (Some ret, fetch_err label))))
                   else ([], Inr (Some bib, fetch_err label)))))"

section \<open>The main script\<close>

text \<open>
  The parsed command line. An option that was not given is \<open>None\<close>; \<open>if args.aux:\<close> and
  its like hold for a given, non-empty string.
  The field \<open>output\<close> is written \<open>output_arg\<close>, since \<open>output\<close> is a keyword here.
\<close>

record args =
  keys :: "string list"
  aliasfile :: "string option"
  bibcloud :: "string option"
  aux :: "string option"
  output_arg :: string

definition truthy :: "string option \<Rightarrow> bool" where
  "truthy v = (case v of None \<Rightarrow> False | Some s \<Rightarrow> s \<noteq> [])"

text \<open>
  The two global dictionaries, in insertion order: an assignment to a key that is
  present keeps its place, as \<open>AList.update\<close> does.
\<close>

record tables =
  ALIAS :: "(string \<times> string) list"
  REVALIAS :: "(string \<times> string) list"

text \<open>
  Lines 362 to 372: the check that there is something to do, the keys of the
  \<open>.aux\<close> file when \<open>--aux\<close> is given, and then the assignment of the explicit keys when
  there are any. The result is \<open>gBibStyle\<close> and \<open>latex_citations\<close>.
\<close>

definition main_latex_citations :: "files \<Rightarrow> args \<Rightarrow> (string \<times> string list) run" where
  "main_latex_citations fs a =
     (if length (keys a) = 0 \<and> \<not> truthy (aliasfile a) \<and> \<not> truthy (bibcloud a) then
        ([Print ''ERROR: a list of keys or an alias file must be provided.''],
         Inl (SystemExit 1))
      else
        bind_run
          (case aux a of
             None \<Rightarrow> ([], Inr ([], []))
           | Some p \<Rightarrow>
               if p \<noteq> [] then
                 bind_run (load_references fs [] p) (\<lambda>(style, cs).
                   ([Print (''Found '' @ py_str_nat (length cs) @ '' in '' @ p)],
                    Inr (style, cs)))
               else ([], Inr ([], [])))
          (\<lambda>(style, latex_citations).
             ([], Inr (style, if 0 < length (keys a) then keys a else latex_citations))))"

text \<open>Lines 382 to 394: one line of the bibcloud alias file.\<close>

definition bibcloud_line :: "tables \<times> event list \<Rightarrow> string \<Rightarrow> tables \<times> event list" where
  "bibcloud_line st l =
     (let x = py_split_ws l
      in if 2 \<le> length x \<and> (0 \<le> py_find ''DBLP:'' (x ! 1) \<or> 0 \<le> py_find ''DOI:'' (x ! 1)) then
           (((fst st)\<lparr>ALIAS := AList.update (x ! 0) (x ! 1) (ALIAS (fst st)),
                      REVALIAS := AList.update (x ! 1) (x ! 0) (REVALIAS (fst st))\<rparr>),
            snd st)
         else if 0 < length x then
           (fst st, snd st @ [PrintList ''Alias parsing - bad line : '' x])
         else st)"

definition load_bibcloud :: "files \<Rightarrow> string \<Rightarrow> tables \<Rightarrow> tables run" where
  "load_bibcloud fs path t =
     (case fs path of
        None \<Rightarrow> ([], Inl (Uncaught FileNotFoundError))
      | Some raw \<Rightarrow>
          (let lines1 = map strip_comment (map py_strip raw)
           in (case foldl bibcloud_line (t, []) lines1 of (t', out) \<Rightarrow> (out, Inr t'))))"

text \<open>
  Lines 396 to 402. \<open>yaml_aliases path\<close> stands for
  \<open>yaml.load(open(path, "r"), ...)["aliases"].items()\<close>: the pairs of the mapping in
  document order, each alias once, or the exception raised on the way.
\<close>

definition aliasfile_entry :: "tables \<Rightarrow> string \<times> string \<Rightarrow> tables" where
  "aliasfile_entry t e =
     (let alias = fst e; key = snd e;
          t1 = t\<lparr>ALIAS := AList.update alias key (ALIAS t)\<rparr>;
          t2 = t1\<lparr>REVALIAS := AList.update key alias (REVALIAS t1)\<rparr>
      in if py_in ''DBLP'' key
         then t2\<lparr>REVALIAS := AList.update (drop 5 key) alias (REVALIAS t2)\<rparr>
         else t2)"

definition load_aliasfile ::
  "(string \<Rightarrow> py_exn + (string \<times> string) list) \<Rightarrow> string \<Rightarrow> tables \<Rightarrow> tables run" where
  "load_aliasfile yaml_aliases path t =
     (case yaml_aliases path of
        Inl e \<Rightarrow> ([], Inl (Uncaught e))
      | Inr items \<Rightarrow> ([], Inr (foldl aliasfile_entry t items)))"

text \<open>Lines 405 to 409: the keys to fetch.\<close>

definition dblp_citations :: "tables \<Rightarrow> string list \<Rightarrow> string list run" where
  "dblp_citations t latex_citations =
     (if length latex_citations = 0 then
        ([Print (''No .aux file given. Download all '' @ py_str_nat (length (ALIAS t))
                  @ '' references instead.'')],
         Inr (map snd (ALIAS t)))
      else
        ([], Inr (map (\<lambda>c. case map_of (ALIAS t) c of Some k \<Rightarrow> k | None \<Rightarrow> c)
                   latex_citations)))"

definition red :: "string \<Rightarrow> string" where
  "red txt = (CHR 0x1B # ''[91m'') @ txt @ (CHR 0x1B # ''[0m'')"

text \<open>
  \<open>download_refs\<close>: the loop over \<open>enumerate(citations)\<close>, with \<open>n = len(citations)\<close>,
  the index \<open>i\<close> and the pair \<open>(fetch_data, success)\<close> so far.
\<close>

fun download_refs_from ::
  "(string \<times> string) list \<Rightarrow> (string \<Rightarrow> py_exn + string) \<Rightarrow> nat \<Rightarrow> nat \<Rightarrow> string list
     \<Rightarrow> string list \<times> nat \<Rightarrow> (string list \<times> nat) run" where
  "download_refs_from R g n i [] acc = ([], Inr acc)"
| "download_refs_from R g n i (c # cs) acc =
     (case download_dblp R g c of
        (out, Inl e) \<Rightarrow> (out, Inl e)
      | (out, Inr (bib, err)) \<Rightarrow>
          (let line = Print (''Fetch '' @ py_str_nat i @ ''/'' @ py_str_nat n @ '': key: '' @ c
                        @ '' -> '' @ (if truthy bib then ''Success'' else red ''Failed'')
                        @ '' '' @ (if truthy bib then [] else '' > '' @ err));
               acc' = (case bib of
                         None \<Rightarrow> acc
                       | Some b \<Rightarrow> if b \<noteq> [] then (fst acc @ [b], Suc (snd acc)) else acc)
           in (case download_refs_from R g n (Suc i) cs acc' of
                 (out', r) \<Rightarrow> (out @ line # out', r))))"

definition download_refs ::
  "(string \<times> string) list \<Rightarrow> (string \<Rightarrow> py_exn + string) \<Rightarrow> string list
     \<Rightarrow> (string list \<times> nat) run" where
  "download_refs R g citations = download_refs_from R g (length citations) 0 citations ([], 0)"

text \<open>
  The whole script: the result is the path of the output file and the text written to
  it. Both alias files are optional and fill the same two dictionaries, the bibcloud file
  first.
\<close>

definition load_optional :: "string option \<Rightarrow> (string \<Rightarrow> tables \<Rightarrow> tables run) \<Rightarrow> tables \<Rightarrow> tables run" where
  "load_optional opt load t =
     (case opt of
        None \<Rightarrow> ([], Inr t)
      | Some p \<Rightarrow> if p \<noteq> [] then load p t else ([], Inr t))"

definition main ::
  "files \<Rightarrow> (string \<Rightarrow> py_exn + (string \<times> string) list) \<Rightarrow> (string \<Rightarrow> py_exn + string) \<Rightarrow> args
     \<Rightarrow> (string \<times> string) run" where
  "main fs yaml_aliases requests_get a =
     bind_run (main_latex_citations fs a) (\<lambda>(style, latex_citations).
     bind_run (load_optional (bibcloud a) (load_bibcloud fs) \<lparr>ALIAS = [], REVALIAS = []\<rparr>) (\<lambda>t1.
     bind_run (load_optional (aliasfile a) (load_aliasfile yaml_aliases) t1) (\<lambda>t2.
     bind_run (dblp_citations t2 latex_citations) (\<lambda>cits.
     bind_run (download_refs (REVALIAS t2) requests_get cits) (\<lambda>(data, successes).
       ([Print (''Downloaded '' @ py_str_nat (length data) @ '' references.''),
         Print (''Write references to '' @ output_arg a)],
        Inr (output_arg a, concat data)))))))"

text \<open>The keys of \<open>REVALIAS\<close> that \<open>aliasfile_entry\<close> assigns for one entry.\<close>

definition reverse_writes :: "string \<times> string \<Rightarrow> string list" where
  "reverse_writes e = (if py_in ''DBLP'' (snd e) then [snd e, drop 5 (snd e)] else [snd e])"

section \<open>Facts about the string primitives\<close>

lemma py_find_aux_char:
  "ch \<notin> set a \<Longrightarrow> py_find_aux [ch] (a @ ch # r) i = int (i + length a)"
  by (induction a arbitrary: i) auto

lemma py_find_char:
  "ch \<notin> set a \<Longrightarrow> py_find [ch] (a @ ch # r) = int (length a)"
  by (simp add: py_find_def py_find_aux_char)

lemma py_find_from_char:
  assumes "ch \<notin> set b"
  shows "py_find_from [ch] (a @ b @ ch # r) (int (length a)) = int (length a + length b)"
proof -
  have "py_find_aux [ch] (b @ ch # r) (length a) = int (length a + length b)"
    using assms by (rule py_find_aux_char)
  then show ?thesis
    by (simp add: py_find_from_def py_clamp_def)
qed

lemma py_slice_middle:
  "py_slice (a @ b @ c) (int (length a)) (int (length a + length b)) = b"
  by (simp add: py_slice_def py_clamp_def)

lemma py_find_aux_bounds:
  "py_find_aux sub s i = - 1 \<or> (int i \<le> py_find_aux sub s i \<and> py_find_aux sub s i \<le> int (i + length s))"
  by (induction sub s i rule: py_find_aux.induct) auto

lemma py_find_aux_sublist:
  "(0 \<le> py_find_aux sub s i) = sublist sub s"
  by (induction sub s i rule: py_find_aux.induct) (auto simp: sublist_Cons_right)

lemma py_in_sublist: "py_in sub s = sublist sub s"
  by (simp add: py_in_def py_find_def py_find_aux_sublist)

lemma find_citation_braces:
  assumes "l = a @ ''{'' @ b @ ''}'' @ c" and "CHR ''{'' \<notin> set a" and "CHR ''}'' \<notin> set b"
  shows "(let y = py_find ''{'' l; z = py_find_from ''}'' l y in py_slice l (y + 1) z) = b"
proof -
  have y: "py_find ''{'' l = int (length a)"
    using assms(1,2) py_find_char [of "CHR ''{''" a "b @ ''}'' @ c"] by simp
  have "CHR ''}'' \<notin> set (''{'' @ b)"
    using assms(3) by simp
  then have "py_find_from ''}'' (a @ (''{'' @ b) @ CHR ''}'' # c) (int (length a))
          = int (length a + length (''{'' @ b))"
    by (rule py_find_from_char)
  then have z: "py_find_from ''}'' l (int (length a)) = int (length a + 1 + length b)"
    using assms(1) by simp
  have "py_slice ((a @ ''{'') @ b @ (''}'' @ c)) (int (length (a @ ''{'')))
          (int (length (a @ ''{'') + length b)) = b"
    by (rule py_slice_middle)
  then have "py_slice l (int (length a) + 1) (int (length a + 1 + length b)) = b"
    using assms(1) by (simp add: add.commute)
  with y z show ?thesis by (simp add: Let_def)
qed

section \<open>The citation extractor on one line\<close>

text \<open>
  Claim C6, as the code has it: on a line that contains one of the two markers, the
  extracted string is the text between the first opening brace of the line and the next
  closing brace after it. The brace is searched from the start of the line, not from the
  marker; both agree when no opening brace stands before the marker.
\<close>

theorem find_citation_first_brace_of_line:
  assumes "py_in citation_marker l \<or> py_in abx_marker l"
    and "l = a @ ''{'' @ b @ ''}'' @ c"
    and "CHR ''{'' \<notin> set a" and "CHR ''}'' \<notin> set b"
  shows "find_citation l = b"
  using assms(1) find_citation_braces [OF assms(2-4)]
  by (auto simp: find_citation_def py_in_def)

theorem find_citation_first_brace_of_line_witness:
  "(py_in citation_marker (CHR 0x5C # ''citation{k1,k2}'')
      \<or> py_in abx_marker (CHR 0x5C # ''citation{k1,k2}''))
   \<and> CHR 0x5C # ''citation{k1,k2}'' = (CHR 0x5C # ''citation'') @ ''{'' @ ''k1,k2'' @ ''}'' @ []
   \<and> CHR ''{'' \<notin> set (CHR 0x5C # ''citation'')
   \<and> CHR ''}'' \<notin> set ''k1,k2''
   \<and> find_citation (CHR 0x5C # ''citation{k1,k2}'') = ''k1,k2''"
proof -
  have m: "py_in citation_marker (CHR 0x5C # ''citation{k1,k2}'')
      \<or> py_in abx_marker (CHR 0x5C # ''citation{k1,k2}'')"
    by code_simp
  have d: "CHR 0x5C # ''citation{k1,k2}'' = (CHR 0x5C # ''citation'') @ ''{'' @ ''k1,k2'' @ ''}'' @ []"
    by simp
  have n1: "CHR ''{'' \<notin> set (CHR 0x5C # ''citation'')" by simp
  have n2: "CHR ''}'' \<notin> set ''k1,k2''" by simp
  from find_citation_first_brace_of_line [OF m d n1 n2] m d n1 n2 show ?thesis
    by blast
qed

text \<open>
  Claim C6, as stated, at the line \<open>{x}\citation{a}\<close>: the marker is there, the text
  between the marker's brace and the next closing brace is \<open>a\<close>, and the extractor
  returns \<open>x\<close>, the content of the brace group that precedes the marker.
\<close>

theorem find_citation_after_marker_counterexample:
  "py_in citation_marker (''{x}'' @ citation_marker @ ''a'' @ ''}'')
   \<and> find_citation (''{x}'' @ citation_marker @ ''a'' @ ''}'') = ''x''
   \<and> find_citation (''{x}'' @ citation_marker @ ''a'' @ ''}'') \<noteq> ''a''"
  by code_simp

section \<open>Facts about the structural check and the substitution\<close>

lemma validate_bib_True_iff:
  "validate_bib tmp = Inr True \<longleftrightarrow>
     (prefix ''@'' tmp \<and> 3 \<le> length tmp \<and> tmp ! (length tmp - 3) = CHR ''}'')"
  by (cases tmp) (auto simp: validate_bib_def py_get_def nat_diff_distrib' split: sum.splits)

lemma validate_bib_IndexError_iff:
  "validate_bib tmp = Inl IndexError \<longleftrightarrow> (tmp = [] \<or> (prefix ''@'' tmp \<and> length tmp < 3))"
  by (cases tmp) (auto simp: validate_bib_def py_get_def split: sum.splits)

lemma download_dblp_rejected:
  assumes "requests_get (fetch_url label) = Inr body" and "validate_bib body \<noteq> Inr True"
  shows "snd (download_dblp R requests_get label) = Inr (None, fetch_err label)"
  using assms by (auto simp: download_dblp_def Let_def split: sum.splits bool.splits)

lemma download_dblp_IndexError:
  assumes "requests_get (fetch_url label) = Inr body" and "validate_bib body = Inl e"
  shows "download_dblp R requests_get label
           = ([Print (''ERROR cannot fetch '' @ fst (fetch_key label))], Inr (None, fetch_err label))"
  using assms by (auto simp: download_dblp_def Let_def split: sum.splits bool.splits)

lemma last_index_None_iff: "last_index x ys = None \<longleftrightarrow> x \<notin> set ys"
  by (induction ys) (auto split: option.splits)

lemma last_index_append:
  "x \<notin> set ys \<Longrightarrow> last_index x (xs @ x # ys) = Some (length xs)"
  by (induction xs) (auto simp: last_index_None_iff split: option.splits)

lemma key_match_len_other: "c \<noteq> CHR ''{'' \<Longrightarrow> key_match_len (c # cs) = None"
  by (simp add: key_match_len_def)

lemma key_match_len_key:
  assumes "mid \<noteq> []" and "CHR 0x0A \<notin> set mid"
    and "CHR '','' \<notin> set (takeWhile (\<lambda>d. d \<noteq> CHR 0x0A) post)"
  shows "key_match_len (CHR ''{'' # mid @ CHR '','' # post) = Some (length mid + 2)"
proof -
  obtain m ms where mid: "mid = m # ms"
    using assms(1) by (cases mid) auto
  have "takeWhile (\<lambda>d. d \<noteq> CHR 0x0A) (mid @ CHR '','' # post)
          = mid @ CHR '','' # takeWhile (\<lambda>d. d \<noteq> CHR 0x0A) post"
  proof -
    have "\<forall>d\<in>set mid. d \<noteq> CHR 0x0A"
      using assms(2) by auto
    then show ?thesis by (simp add: takeWhile_append2)
  qed
  then have "drop 1 (takeWhile (\<lambda>d. d \<noteq> CHR 0x0A) (mid @ CHR '','' # post))
          = ms @ CHR '','' # takeWhile (\<lambda>d. d \<noteq> CHR 0x0A) post"
    by (simp add: mid)
  then have "last_index (CHR '','') (drop 1 (takeWhile (\<lambda>d. d \<noteq> CHR 0x0A) (mid @ CHR '','' # post)))
          = Some (length ms)"
    using last_index_append [OF assms(3), of ms] by simp
  then show ?thesis
    by (simp add: key_match_len_def mid)
qed

lemma re_sub_first_skip:
  "CHR ''{'' \<notin> set pre \<Longrightarrow> re_sub_first repl (pre @ c # cs) = pre @ re_sub_first repl (c # cs)"
  by (induction pre) (auto simp: key_match_len_other simp del: re_sub_first.simps(2) simp add: re_sub_first.simps(2) [of _ _ "_ @ _"])

lemma re_sub_first_key:
  assumes "CHR ''{'' \<notin> set pre" and "mid \<noteq> []" and "CHR 0x0A \<notin> set mid"
    and "CHR '','' \<notin> set (takeWhile (\<lambda>d. d \<noteq> CHR 0x0A) post)"
  shows "re_sub_first repl (pre @ ''{'' @ mid @ '','' @ post) = pre @ repl @ post"
proof -
  have "re_sub_first repl (CHR ''{'' # mid @ CHR '','' # post) = repl @ post"
    using key_match_len_key [OF assms(2-4)] by simp
  with re_sub_first_skip [OF assms(1)] show ?thesis by simp
qed

section \<open>The record fetcher\<close>

text \<open>
  Claim C1, as the code has it: when the body passes the structural check and its first
  opening brace is followed, on the same line, by a non-empty key and one comma, the
  fetcher returns the body with that key replaced: by the alias when the input key
  \<open>label\<close> (prefix included) is a key of the reverse table \<open>R\<close>, and by \<open>label\<close> itself otherwise.
  The text before the brace and the text from the comma on are unchanged. The
  replacement is taken without backslash, so that \<open>re.sub\<close> inserts it as it is.
\<close>

theorem download_dblp_rewrites_key:
  assumes "requests_get (fetch_url label) = Inr bib"
    and "validate_bib bib = Inr True"
    and "bib = pre @ ''{'' @ oldkey @ '','' @ post"
    and "CHR ''{'' \<notin> set pre"
    and "oldkey \<noteq> []" and "CHR 0x0A \<notin> set oldkey" and "CHR '','' \<notin> set oldkey"
    and "CHR '','' \<notin> set (takeWhile (\<lambda>d. d \<noteq> CHR 0x0A) post)"
    and "rep = (case map_of R label of Some alias \<Rightarrow> alias | None \<Rightarrow> label)"
    and "CHR 0x5C \<notin> set rep"
  shows "snd (download_dblp R requests_get label)
           = Inr (Some (pre @ ''{'' @ rep @ '','' @ post), fetch_err label)"
proof -
  have ne: "bib \<noteq> []"
    using assms(3) by simp
  have "re_sub_first (''{'' @ rep @ '','') bib = pre @ (''{'' @ rep @ '','') @ post"
    unfolding assms(3) using assms(4,5,6,8) by (rule re_sub_first_key)
  then have "re_sub_key (''{'' @ rep @ '','') bib = Inr (pre @ ''{'' @ rep @ '','' @ post)"
    using assms(10) by (simp add: re_sub_key_def)
  then show ?thesis
    using assms(1,2,9) ne by (simp add: download_dblp_def Let_def)
qed

theorem download_dblp_rewrites_key_witness:
  "snd (download_dblp [(''DOI:10.1/x'', ''foo'')] (\<lambda>u. Inr ''@a{DBLP:j/x/Y,\<newline>}\<newline>\<newline>'') ''DOI:10.1/x'')
     = Inr (Some ''@a{foo,\<newline>}\<newline>\<newline>'', fetch_err ''DOI:10.1/x'')"
proof -
  have 1: "(\<lambda>u. Inr ''@a{DBLP:j/x/Y,\<newline>}\<newline>\<newline>'') (fetch_url ''DOI:10.1/x'') = (Inr ''@a{DBLP:j/x/Y,\<newline>}\<newline>\<newline>'' :: py_exn + string)"
    by simp
  have 2: "validate_bib ''@a{DBLP:j/x/Y,\<newline>}\<newline>\<newline>'' = Inr True"
    by code_simp
  have 3: "''@a{DBLP:j/x/Y,\<newline>}\<newline>\<newline>'' = ''@a'' @ ''{'' @ ''DBLP:j/x/Y'' @ '','' @ ''\<newline>}\<newline>\<newline>''"
    by simp
  have 4: "CHR ''{'' \<notin> set ''@a''" by simp
  have 5: "''DBLP:j/x/Y'' \<noteq> []" by simp
  have 6: "CHR 0x0A \<notin> set ''DBLP:j/x/Y''" by simp
  have 7: "CHR '','' \<notin> set ''DBLP:j/x/Y''" by simp
  have 8: "CHR '','' \<notin> set (takeWhile (\<lambda>d. d \<noteq> CHR 0x0A) ''\<newline>}\<newline>\<newline>'')" by simp
  have 9: "''foo'' = (case map_of [(''DOI:10.1/x'', ''foo'')] ''DOI:10.1/x'' of Some alias \<Rightarrow> alias | None \<Rightarrow> ''DOI:10.1/x'')"
    by simp
  have 10: "CHR 0x5C \<notin> set ''foo''" by simp
  from download_dblp_rewrites_key [OF 1 2 3 4 5 6 7 8 9 10] show ?thesis
    by simp
qed

text \<open>
  Claim C1, as stated, fails in three ways. For the input key \<open>DBLP:conf/x/Smith20\<close>
  without alias the output key is \<open>DBLP:conf/x/Smith20\<close>, not \<open>conf/x/Smith20\<close>. For
  the input key \<open>DOI:10.1/x\<close> without alias and a body whose key is \<open>DBLP:j/x/Y\<close>, the
  output key is the input key, not the key the source returned. And on a key line with
  several commas the replaced text runs to the last comma of the line, not to the first.
\<close>

theorem download_dblp_output_key_counterexample:
  "map_of [] ''DBLP:conf/x/Smith20'' = (None :: string option)
   \<and> snd (download_dblp [] (\<lambda>u. Inr ''@a{DBLP:conf/x/Smith20,\<newline>}\<newline>\<newline>'') ''DBLP:conf/x/Smith20'')
       = Inr (Some ''@a{DBLP:conf/x/Smith20,\<newline>}\<newline>\<newline>'', fetch_err ''DBLP:conf/x/Smith20'')
   \<and> snd (download_dblp [] (\<lambda>u. Inr ''@a{DBLP:j/x/Y,\<newline>}\<newline>\<newline>'') ''DOI:10.1/x'')
       = Inr (Some ''@a{DOI:10.1/x,\<newline>}\<newline>\<newline>'', fetch_err ''DOI:10.1/x'')
   \<and> snd (download_dblp [] (\<lambda>u. Inr ''@a{k, t = {A, B}\<newline>}\<newline>\<newline>'') ''K'')
       = Inr (Some ''@a{K, B}\<newline>}\<newline>\<newline>'', fetch_err ''K'')"
  by code_simp

text \<open>
  Claim C4 at the keys \<open>DOI:10.1000/DBLP:x\<close> and \<open>10.1000/DOI:x\<close>. The first starts
  with \<open>DOI:\<close>, and the fetcher cuts five characters and asks the DBLP endpoint; the
  second starts with neither prefix, and the fetcher cuts four characters instead of
  sending the key as it is. The tests are \<open>in\<close>, the slices assume a prefix.
\<close>

theorem fetch_key_substring_test:
  "prefix ''DOI:'' ''DOI:10.1000/DBLP:x''
   \<and> fetch_key ''DOI:10.1000/DBLP:x'' = (''0.1000/DBLP:x'', True)
   \<and> fetch_url ''DOI:10.1000/DBLP:x'' = ''https://dblp.uni-trier.de/rec/0.1000/DBLP:x.bib''
   \<and> \<not> prefix ''DBLP:'' ''10.1000/DOI:x'' \<and> \<not> prefix ''DOI:'' ''10.1000/DOI:x''
   \<and> fetch_url ''10.1000/DOI:x'' = ''https://dblp.org/doi/000/DOI:x.bib''"
  by code_simp

text \<open>Where the substring tests and the prefixes agree, the fetcher does what C4 says.\<close>

lemma fetch_key_DBLP_prefix:
  "prefix ''DBLP:'' label \<Longrightarrow> fetch_key label = (drop 5 label, True)"
  by (auto simp: fetch_key_def py_in_sublist prefix_imp_sublist)

lemma fetch_key_DOI_prefix:
  "prefix ''DOI:'' label \<Longrightarrow> \<not> sublist ''DBLP:'' label \<Longrightarrow> fetch_key label = (drop 4 label, False)"
  by (auto simp: fetch_key_def py_in_sublist prefix_imp_sublist)

lemma fetch_key_bare:
  "\<not> sublist ''DBLP:'' label \<Longrightarrow> \<not> sublist ''DOI:'' label \<Longrightarrow> fetch_key label = (label, False)"
  by (auto simp: fetch_key_def py_in_sublist)

text \<open>
  Claim C8: a body that does not start with \<open>@\<close>, or that has no \<open>}\<close> as its
  third-from-last character, is rejected. The fetcher returns no record, and the error
  text names the key and the address that was asked. The status code of the response
  plays no part: only the text of the body is read.
\<close>

theorem download_dblp_rejects_invalid_body:
  assumes "requests_get (fetch_url label) = Inr body"
    and "\<not> prefix ''@'' body \<or> \<not> (3 \<le> length body \<and> body ! (length body - 3) = CHR ''}'')"
  shows "snd (download_dblp R requests_get label)
           = Inr (None, ''ERROR key: '' @ fst (fetch_key label) @ '', url: '' @ fetch_url label)"
proof -
  have "validate_bib body \<noteq> Inr True"
    using assms(2) by (auto simp: validate_bib_True_iff)
  with assms(1) show ?thesis
    by (simp add: download_dblp_rejected fetch_err_def)
qed

theorem download_dblp_rejects_invalid_body_witness:
  "snd (download_dblp [] (\<lambda>u. Inr ''<html>'') ''DBLP:x'')
     = Inr (None, ''ERROR key: x, url: https://dblp.uni-trier.de/rec/x.bib'')"
proof -
  have 1: "(\<lambda>u. Inr ''<html>'') (fetch_url ''DBLP:x'') = (Inr ''<html>'' :: py_exn + string)"
    by simp
  have 2: "\<not> prefix ''@'' ''<html>'' \<or> \<not> (3 \<le> length ''<html>'' \<and> ''<html>'' ! (length ''<html>'' - 3) = CHR ''}'')"
    by simp
  have 3: "fst (fetch_key ''DBLP:x'') = ''x''" by code_simp
  have 4: "fetch_url ''DBLP:x'' = ''https://dblp.uni-trier.de/rec/x.bib''" by code_simp
  from download_dblp_rejects_invalid_body [OF 1 2, of "[]"] show ?thesis
    by (simp add: 3 4)
qed

text \<open>
  Claim C10: for the empty body, and for a body of one or two characters that starts
  with \<open>@\<close>, the structural check raises \<open>IndexError\<close>; the handler of \<open>download_dblp\<close>
  prints the failure and the fetcher returns no record, with the error text, so the
  exception does not leave the function.
\<close>

theorem validate_bib_short_body:
  assumes "body = [] \<or> (prefix ''@'' body \<and> length body \<le> 2)"
    and "requests_get (fetch_url label) = Inr body"
  shows "validate_bib body = Inl IndexError
         \<and> download_dblp R requests_get label
             = ([Print (''ERROR cannot fetch '' @ fst (fetch_key label))],
                Inr (None, fetch_err label))"
proof -
  have "validate_bib body = Inl IndexError"
    using assms(1) by (auto simp: validate_bib_IndexError_iff)
  with assms(2) show ?thesis
    by (simp add: download_dblp_IndexError)
qed

theorem validate_bib_short_body_witness:
  "validate_bib ''@a'' = Inl IndexError
   \<and> download_dblp [] (\<lambda>u. Inr ''@a'') ''DBLP:x''
       = ([Print ''ERROR cannot fetch x''],
          Inr (None, ''ERROR key: x, url: https://dblp.uni-trier.de/rec/x.bib''))"
proof -
  have 1: "''@a'' = [] \<or> (prefix ''@'' ''@a'' \<and> length ''@a'' \<le> 2)" by simp
  have 2: "(\<lambda>u. Inr ''@a'') (fetch_url ''DBLP:x'') = (Inr ''@a'' :: py_exn + string)" by simp
  have 3: "fst (fetch_key ''DBLP:x'') = ''x''" by code_simp
  have 4: "fetch_err ''DBLP:x'' = ''ERROR key: x, url: https://dblp.uni-trier.de/rec/x.bib''" by code_simp
  from validate_bib_short_body [OF 1 2, of "[]"] show ?thesis
    by (simp add: 3 4)
qed

section \<open>Facts about \<open>load_references\<close>\<close>

lemma py_split_length: "length (py_split c s) = Suc (count_list s c)"
  by (induction s) (auto split: list.splits)

lemma count_list_member: "c \<in> set s \<Longrightarrow> 0 < count_list s c"
  by (induction s) auto

lemma py_split_two: "c \<in> set s \<Longrightarrow> 2 \<le> length (py_split c s)"
  using count_list_member [of c s] by (simp add: py_split_length)

lemma py_split_second:
  "c \<in> set s \<Longrightarrow> \<exists>x1. py_get (py_split c s) 1 = Inr x1"
  using py_split_two [of c s] by (simp add: py_get_def)

lemma bibstyle_of_returns:
  assumes "length bl = 1 \<longrightarrow> CHR ''{'' \<in> set (bl ! 0)"
  shows "\<exists>style. bibstyle_of g bl = Inr style"
proof (cases "length bl = 1")
  case True
  with assms obtain x1 where "py_get (py_split (CHR ''{'') (bl ! 0)) 1 = Inr x1"
    using py_split_second by blast
  with True show ?thesis by (simp add: bibstyle_of_def)
next
  case False
  then show ?thesis by (simp add: bibstyle_of_def)
qed

lemma citation_keys_sorted: "sorted (citation_keys ls)"
  by (simp add: citation_keys_def Let_def)

lemma citation_keys_distinct: "distinct (citation_keys ls)"
  by (simp add: citation_keys_def Let_def)

lemma citation_keys_set:
  "set (citation_keys ls)
     = {k. \<exists>l \<in> set ls. find_citation l \<noteq> []
            \<and> k \<in> set (py_split (CHR '','') (py_strip_chars '' '' (find_citation l)))}"
  by (auto simp: citation_keys_def Let_def)

lemma load_references_missing_file:
  assumes "\<not> isfile fs bibname" and "isfile fs (bibname @ ''.aux'')"
  shows "load_references fs g bibname
           = ([Print (''bibcloud: parsing  '' @ bibname)], Inl (Uncaught FileNotFoundError))"
  using assms by (simp add: load_references_def isfile_def)

lemma load_references_fatal_iff:
  "snd (load_references fs g bibname) = Inl (SystemExit 1)
     \<longleftrightarrow> \<not> isfile fs bibname \<and> \<not> isfile fs (bibname @ ''.aux'')"
  by (auto simp: load_references_def isfile_def Let_def split: option.splits sum.splits)

lemma citation_keys_example:
  "citation_keys [citation_marker @ ''b,a}'', citation_marker @ ''a,c}''] = [''a'', ''b'', ''c'']"
  by code_simp

section \<open>The citation extractor on a file\<close>

text \<open>
  Claim C3 at the base name \<open>paper\<close>, where only \<open>paper.aux\<close> exists. The guard of
  \<open>load_references\<close> looks at both names and lets the call pass, but the file that is
  opened is \<open>paper\<close>: the call ends with an uncaught \<open>FileNotFoundError\<close> instead of
  the keys of \<open>paper.aux\<close>, which the same call returns for the full name.
\<close>

theorem load_references_opens_bibname_only:
  "\<not> isfile [''paper.aux'' \<mapsto> [citation_marker @ ''a}'']] ''paper''
   \<and> isfile [''paper.aux'' \<mapsto> [citation_marker @ ''a}'']] (''paper'' @ ''.aux'')
   \<and> load_references [''paper.aux'' \<mapsto> [citation_marker @ ''a}'']] [] ''paper''
       = ([Print ''bibcloud: parsing  paper''], Inl (Uncaught FileNotFoundError))
   \<and> snd (load_references [''paper.aux'' \<mapsto> [citation_marker @ ''a}'']] [] ''paper.aux'')
       = Inr ([], [''a''])"
  by code_simp

text \<open>
  Claim C5, as the code has it: for a build artifact that can be read (and whose
  \<open>\bibstyle\<close> line, if it is the only one, has an opening brace), the extractor
  returns a sorted list without duplicates whose elements are exactly the comma-separated
  parts of the non-empty extracted groups, each group stripped of its outer spaces. The
  groups are filtered before they are split, so an empty part of a group stays in the
  result.
\<close>

theorem load_references_keys:
  assumes "fs bibname = Some raw"
    and "bl = filter (\<lambda>x. 0 \<le> py_find (CHR 0x5C # ''bibstyle'') x) (map py_strip raw)"
    and "length bl = 1 \<longrightarrow> CHR ''{'' \<in> set (bl ! 0)"
  shows "\<exists>out style ks.
           load_references fs g bibname = (out, Inr (style, ks))
           \<and> sorted ks \<and> distinct ks
           \<and> set ks = {k. \<exists>l \<in> set raw. find_citation (py_strip l) \<noteq> []
                          \<and> k \<in> set (py_split (CHR '','')
                                       (py_strip_chars '' '' (find_citation (py_strip l))))}"
proof -
  obtain style where st: "bibstyle_of g bl = Inr style"
    using bibstyle_of_returns [OF assms(3)] by blast
  have "snd (load_references fs g bibname) = Inr (style, citation_keys (map py_strip raw))"
    using assms(1) st unfolding assms(2)
    by (simp add: load_references_def isfile_def Let_def)
  then obtain out where "load_references fs g bibname = (out, Inr (style, citation_keys (map py_strip raw)))"
    by (cases "load_references fs g bibname") auto
  moreover have "set (citation_keys (map py_strip raw))
     = {k. \<exists>l \<in> set raw. find_citation (py_strip l) \<noteq> []
            \<and> k \<in> set (py_split (CHR '','') (py_strip_chars '' '' (find_citation (py_strip l))))}"
    by (simp add: citation_keys_set)
  ultimately show ?thesis
    using citation_keys_sorted citation_keys_distinct by blast
qed

theorem load_references_keys_witness:
  "\<exists>out style ks.
     load_references [''p.aux'' \<mapsto> [citation_marker @ ''b,a}\<newline>'', citation_marker @ ''a,c}\<newline>'']] [] ''p.aux''
       = (out, Inr (style, ks))
     \<and> sorted ks \<and> distinct ks
     \<and> set ks = {k. \<exists>l \<in> set [citation_marker @ ''b,a}\<newline>'', citation_marker @ ''a,c}\<newline>''].
                     find_citation (py_strip l) \<noteq> []
                     \<and> k \<in> set (py_split (CHR '','')
                                  (py_strip_chars '' '' (find_citation (py_strip l))))}"
proof -
  let ?raw = "[citation_marker @ ''b,a}\<newline>'', citation_marker @ ''a,c}\<newline>'']"
  have 1: "[''p.aux'' \<mapsto> ?raw] ''p.aux'' = Some ?raw" by simp
  have 2: "[] = filter (\<lambda>x. 0 \<le> py_find (CHR 0x5C # ''bibstyle'') x) (map py_strip ?raw)"
    by code_simp
  have 3: "length ([] :: string list) = 1 \<longrightarrow> CHR ''{'' \<in> set ([] ! 0)" by simp
  from load_references_keys [where fs = "[''p.aux'' \<mapsto> ?raw]" and bibname = "''p.aux''"
      and raw = ?raw and bl = "[]" and g = "[]", OF 1 2 3]
  show ?thesis .
qed

text \<open>
  Claim C5, as stated, at the line \<open>\citation{a,,b}\<close>: the result contains the empty
  string.
\<close>

theorem citation_keys_blank_entry_counterexample:
  "snd (load_references [''p.aux'' \<mapsto> [citation_marker @ ''a,,b}'']] [] ''p.aux'')
     = Inr ([], ['''', ''a'', ''b''])
   \<and> '''' \<in> set ['''', ''a'', ''b'']"
  by code_simp

section \<open>The main script: keys and alias tables\<close>

lemma bind_run_snd_Inl: "snd m = Inl e \<Longrightarrow> snd (bind_run m f) = Inl e"
  by (cases m) (auto simp: bind_run_def)

lemma bind_run_snd_Inr: "snd m = Inr v \<Longrightarrow> snd (bind_run m f) = snd (f v)"
  by (cases m) (auto simp: bind_run_def split: prod.splits)

lemma load_bibcloud_returns:
  "fs path = Some raw \<Longrightarrow> \<exists>out t'. load_bibcloud fs path t = (out, Inr t')"
  by (simp add: load_bibcloud_def Let_def split: prod.splits)

lemma aliasfile_entry_ALIAS:
  "map_of (ALIAS (aliasfile_entry t e)) = (map_of (ALIAS t))(fst e \<mapsto> snd e)"
  by (simp add: aliasfile_entry_def Let_def update_conv')

lemma aliasfile_entry_REVALIAS:
  "map_of (REVALIAS (aliasfile_entry t e)) r
     = (if r \<in> set (reverse_writes e) then Some (fst e) else map_of (REVALIAS t) r)"
  by (simp add: aliasfile_entry_def reverse_writes_def Let_def update_conv')

lemma foldl_aliasfile_ALIAS_other:
  "a \<notin> fst ` set es \<Longrightarrow> map_of (ALIAS (foldl aliasfile_entry t es)) a = map_of (ALIAS t) a"
  by (induction es arbitrary: t) (auto simp: aliasfile_entry_ALIAS)

lemma foldl_aliasfile_REVALIAS_other:
  "r \<notin> (\<Union>e \<in> set es. set (reverse_writes e))
     \<Longrightarrow> map_of (REVALIAS (foldl aliasfile_entry t es)) r = map_of (REVALIAS t) r"
  by (induction es arbitrary: t) (auto simp: aliasfile_entry_REVALIAS)

text \<open>
  Claim C2, as the code has it: when both an \<open>.aux\<close> path and explicit keys are given,
  the \<open>.aux\<close> file is still read (and a failure of that ends the run), but the key list
  is then the list of explicit keys. The keys of the \<open>.aux\<close> file are used only when no
  explicit key is given.
\<close>

theorem main_latex_citations_explicit_keys:
  assumes "aux a = Some p" and "p \<noteq> []" and "keys a \<noteq> []"
  shows "snd (main_latex_citations fs a)
           = (case snd (load_references fs [] p) of
                Inl e \<Rightarrow> Inl e
              | Inr (style, cs) \<Rightarrow> Inr (style, keys a))"
proof (cases "snd (load_references fs [] p)")
  case (Inl e)
  then show ?thesis
    using assms by (simp add: main_latex_citations_def bind_run_snd_Inl)
next
  case (Inr v)
  obtain style cs where v: "v = (style, cs)" by (cases v)
  have "snd (bind_run (load_references fs [] p) (\<lambda>(style, cs).
           ([Print (''Found '' @ py_str_nat (length cs) @ '' in '' @ p)], Inr (style, cs))))
          = Inr (style, cs)"
    using Inr v by (simp add: bind_run_snd_Inr)
  then show ?thesis
    using assms Inr v by (simp add: main_latex_citations_def bind_run_snd_Inr)
qed

theorem main_latex_citations_explicit_keys_witness:
  "snd (main_latex_citations [''p.aux'' \<mapsto> [citation_marker @ ''a}'']]
          \<lparr>keys = [''k''], aliasfile = None, bibcloud = None, aux = Some ''p.aux'',
           output_arg = ''DBLP.bib''\<rparr>)
     = Inr ([], [''k''])"
proof -
  let ?a = "\<lparr>keys = [''k''], aliasfile = None, bibcloud = None, aux = Some ''p.aux'',
           output_arg = ''DBLP.bib''\<rparr>"
  have 1: "aux ?a = Some ''p.aux''" by simp
  have 2: "''p.aux'' \<noteq> []" by simp
  have 3: "keys ?a \<noteq> []" by simp
  have 4: "snd (load_references [''p.aux'' \<mapsto> [citation_marker @ ''a}'']] [] ''p.aux'')
             = Inr ([], [''a''])"
    by code_simp
  from main_latex_citations_explicit_keys [OF 1 2 3, of "[''p.aux'' \<mapsto> [citation_marker @ ''a}'']]"]
  show ?thesis by (simp add: 4)
qed

text \<open>
  Claim C2, as stated, for the key \<open>k\<close> and an \<open>.aux\<close> file that cites \<open>a\<close>: the
  extractor returns \<open>a\<close>, and the key list is not that.
\<close>

theorem main_latex_citations_aux_priority_counterexample:
  "snd (load_references [''p.aux'' \<mapsto> [citation_marker @ ''a}'']] [] ''p.aux'')
     = Inr ([], [''a''])
   \<and> snd (main_latex_citations [''p.aux'' \<mapsto> [citation_marker @ ''a}'']]
          \<lparr>keys = [''k''], aliasfile = None, bibcloud = None, aux = Some ''p.aux'',
           output_arg = ''DBLP.bib''\<rparr>)
     \<noteq> Inr ([], [''a''])"
  by code_simp

text \<open>
  Claim C9, as the code has it: a line of the bibcloud file with fewer than two tokens
  creates no alias entry and never ends the run. A line without token is skipped in
  silence; a line with exactly one token is reported as a bad line.
\<close>

theorem bibcloud_line_short:
  assumes "length (py_split_ws l) < 2"
  shows "fst (bibcloud_line (t, out) l) = t
         \<and> snd (bibcloud_line (t, out) l)
             = (if py_split_ws l = [] then out
                else out @ [PrintList ''Alias parsing - bad line : '' (py_split_ws l)])"
  using assms by (simp add: bibcloud_line_def Let_def)

theorem bibcloud_line_short_witness:
  "fst (bibcloud_line (\<lparr>ALIAS = [], REVALIAS = []\<rparr>, []) '''') = \<lparr>ALIAS = [], REVALIAS = []\<rparr>
   \<and> snd (bibcloud_line (\<lparr>ALIAS = [], REVALIAS = []\<rparr>, []) '''') = []"
proof -
  have 1: "length (py_split_ws '''') < 2" by code_simp
  have 2: "py_split_ws '''' = []" by code_simp
  from bibcloud_line_short [OF 1, of "\<lparr>ALIAS = [], REVALIAS = []\<rparr>" "[]"] show ?thesis
    by (simp add: 2)
qed

text \<open>
  Claim C9, as stated, at the line \<open>foo % see below\<close>: after the comment is cut it has
  one token, the tables stay empty, and the warning is printed.
\<close>

theorem bibcloud_one_token_warning_counterexample:
  "length (py_split_ws (strip_comment (py_strip ''foo % see below\<newline>''))) < 2
   \<and> load_bibcloud [''alias.txt'' \<mapsto> [''foo % see below\<newline>'']] ''alias.txt''
        \<lparr>ALIAS = [], REVALIAS = []\<rparr>
       = ([PrintList ''Alias parsing - bad line : '' [''foo'']],
          Inr \<lparr>ALIAS = [], REVALIAS = []\<rparr>)"
  by code_simp

text \<open>
  Claim C7, as the code has it: for the entries of the structured alias file, each alias
  once, the forward table maps every alias to its canonical key. The reverse table maps
  the canonical key, and with \<open>DBLP\<close> in it also the key without its first five
  characters, to the alias, unless a later entry assigns the same reverse key: the last
  assignment wins.
\<close>

theorem aliasfile_entries_registered:
  assumes "distinct (map fst items)" and "items = pre @ (alias, key) # post"
  shows "map_of (ALIAS (foldl aliasfile_entry t items)) alias = Some key
         \<and> (\<forall>r \<in> set (reverse_writes (alias, key)).
               r \<notin> (\<Union>e \<in> set post. set (reverse_writes e))
               \<longrightarrow> map_of (REVALIAS (foldl aliasfile_entry t items)) r = Some alias)"
proof -
  let ?t1 = "aliasfile_entry (foldl aliasfile_entry t pre) (alias, key)"
  have fold: "foldl aliasfile_entry t items = foldl aliasfile_entry ?t1 post"
    by (simp add: assms(2))
  have "alias \<notin> fst ` set post"
    using assms by auto
  then have "map_of (ALIAS (foldl aliasfile_entry ?t1 post)) alias = map_of (ALIAS ?t1) alias"
    by (rule foldl_aliasfile_ALIAS_other)
  then have fwd: "map_of (ALIAS (foldl aliasfile_entry t items)) alias = Some key"
    by (simp add: fold aliasfile_entry_ALIAS)
  have "map_of (REVALIAS (foldl aliasfile_entry t items)) r = Some alias"
    if "r \<in> set (reverse_writes (alias, key))"
      and "r \<notin> (\<Union>e \<in> set post. set (reverse_writes e))" for r
  proof -
    have "map_of (REVALIAS (foldl aliasfile_entry ?t1 post)) r = map_of (REVALIAS ?t1) r"
      using that(2) by (rule foldl_aliasfile_REVALIAS_other)
    then show ?thesis
      using that(1) by (simp add: fold aliasfile_entry_REVALIAS)
  qed
  with fwd show ?thesis by blast
qed

theorem aliasfile_entries_registered_witness:
  "map_of (ALIAS (foldl aliasfile_entry \<lparr>ALIAS = [], REVALIAS = []\<rparr>
                    [(''foo'', ''DBLP:conf/x/Smith20'')])) ''foo'' = Some ''DBLP:conf/x/Smith20''
   \<and> map_of (REVALIAS (foldl aliasfile_entry \<lparr>ALIAS = [], REVALIAS = []\<rparr>
                    [(''foo'', ''DBLP:conf/x/Smith20'')])) ''DBLP:conf/x/Smith20'' = Some ''foo''
   \<and> map_of (REVALIAS (foldl aliasfile_entry \<lparr>ALIAS = [], REVALIAS = []\<rparr>
                    [(''foo'', ''DBLP:conf/x/Smith20'')])) ''conf/x/Smith20'' = Some ''foo''"
proof -
  have 1: "distinct (map fst [(''foo'', ''DBLP:conf/x/Smith20'')])" by simp
  have 2: "[(''foo'', ''DBLP:conf/x/Smith20'')] = [] @ (''foo'', ''DBLP:conf/x/Smith20'') # []"
    by simp
  have 3: "reverse_writes (''foo'', ''DBLP:conf/x/Smith20'')
             = [''DBLP:conf/x/Smith20'', ''conf/x/Smith20'']"
    by code_simp
  from aliasfile_entries_registered [OF 1 2, of "\<lparr>ALIAS = [], REVALIAS = []\<rparr>"]
  show ?thesis by (simp add: 3)
qed

text \<open>
  Claim C7, as stated, for two aliases of one canonical key: the reverse table maps the
  key to the second alias, not to the first.
\<close>

theorem aliasfile_shared_canonical_counterexample:
  "distinct (map fst [(''a'', ''DBLP:x''), (''b'', ''DBLP:x'')])
   \<and> map_of (REVALIAS (foldl aliasfile_entry \<lparr>ALIAS = [], REVALIAS = []\<rparr>
                 [(''a'', ''DBLP:x''), (''b'', ''DBLP:x'')])) ''DBLP:x'' = Some ''b''
   \<and> map_of (REVALIAS (foldl aliasfile_entry \<lparr>ALIAS = [], REVALIAS = []\<rparr>
                 [(''a'', ''DBLP:x''), (''b'', ''DBLP:x'')])) ''DBLP:x'' \<noteq> Some ''a''"
  by code_simp

end
